theory Spec2Isabelle
  imports
    Main
    "HOL-Library.Word"
    "HOL-Library.Char_ord"
    "HOL-Library.List_Lexorder"
    "HOL-Library.Multiset"
begin

section \<open>The search panel of Cutter: \<^verbatim>\<open>src/widgets/SearchWidget.cpp\<close>\<close>

text \<open>
  The file is a table model over the results of a search (\<^verbatim>\<open>SearchModel\<close>), a proxy that
  filters and orders the rows (\<^verbatim>\<open>SearchSortFilterProxyModel\<close>) and the panel that owns the
  controls (\<^verbatim>\<open>SearchWidget\<close>). The analysis engine behind \<^verbatim>\<open>Core()\<close>, the configuration behind
  \<^verbatim>\<open>Config()\<close> and the translation catalogue behind \<^verbatim>\<open>tr\<close> are collaborators of the file: they
  are parameters of the model. The Qt classes the file calls (\<^verbatim>\<open>QString\<close>, \<^verbatim>\<open>QMap\<close>,
  \<^verbatim>\<open>QComboBox\<close>, \<^verbatim>\<open>QLineEdit\<close>, \<^verbatim>\<open>QModelIndex\<close>) are modelled by what their documentation and
  sources say they do.
\<close>

subsection \<open>Strings\<close>

text \<open>
  A \<^verbatim>\<open>QString\<close> is a sequence of characters, compared with \<^verbatim>\<open><\<close> lexicographically by
  character code: the lexicographic order of \<^typ>\<open>string\<close> over the order of characters
  by their code.
\<close>

type_synonym QString = string

text \<open>\<^verbatim>\<open>QStringList::join(sep)\<close>.\<close>

fun join :: "QString \<Rightarrow> QString list \<Rightarrow> QString" where
  "join sep [] = []"
| "join sep [x] = x"
| "join sep (x # y # ys) = x @ sep @ join sep (y # ys)"

text \<open>\<^verbatim>\<open>QChar::digitValue\<close>: the value of a decimal digit, \<open>-1\<close> for any other character.\<close>

definition digitValue :: "char \<Rightarrow> int" where
  "digitValue c =
     (let n = (of_char c :: nat) in if 48 \<le> n \<and> n \<le> 57 then int n - 48 else - 1)"

text \<open>
  \<^verbatim>\<open>QString::arg\<close> replaces every place marker with the lowest number in the string. A
  marker is \<^verbatim>\<open>%\<close>, an optional \<^verbatim>\<open>L\<close> and one or two decimal digits. \<open>takeEscape\<close> reads the
  characters after a \<^verbatim>\<open>%\<close>: the number of the marker and how many characters it takes, or
  \<open>None\<close> when no marker starts there (the scan of \<^verbatim>\<open>findArgEscapes\<close> then goes on from the
  next character).
\<close>

definition takeEscape :: "QString \<Rightarrow> (nat \<times> nat) option" where
  "takeEscape cs =
     (let (loc, ds) = (case cs of [] \<Rightarrow> (0, cs)
                        | c # r \<Rightarrow> if c = CHR ''L'' then (1, r) else (0, cs))
      in case ds of
           [] \<Rightarrow> None
         | d # es \<Rightarrow>
             if digitValue d = - 1 then None
             else (case es of
                     [] \<Rightarrow> Some (nat (digitValue d), loc + 1)
                   | e # _ \<Rightarrow>
                       if digitValue e \<noteq> - 1
                       then Some (nat (10 * digitValue d + digitValue e), loc + 2)
                       else Some (nat (digitValue d), loc + 1)))"

datatype ArgToken = Lit char | Escape nat QString

function argTokens :: "QString \<Rightarrow> ArgToken list" where
  "argTokens [] = []"
| "argTokens (c # cs) =
     (if c = CHR ''%'' then
        (case takeEscape cs of
           Some (n, k) \<Rightarrow> Escape n (c # take k cs) # argTokens (drop k cs)
         | None \<Rightarrow> Lit c # argTokens cs)
      else Lit c # argTokens cs)"
  by pat_completeness auto
termination
  by (relation "measure length") auto

fun escapes :: "ArgToken list \<Rightarrow> nat list" where
  "escapes [] = []"
| "escapes (Lit c # ts) = escapes ts"
| "escapes (Escape n raw # ts) = n # escapes ts"

fun min_escape :: "nat list \<Rightarrow> nat" where
  "min_escape [] = 0"
| "min_escape [n] = n"
| "min_escape (n # m # ns) = min n (min_escape (m # ns))"

fun replaceArgEscapes :: "nat \<Rightarrow> QString \<Rightarrow> ArgToken list \<Rightarrow> QString" where
  "replaceArgEscapes m a [] = []"
| "replaceArgEscapes m a (Lit c # ts) = c # replaceArgEscapes m a ts"
| "replaceArgEscapes m a (Escape n raw # ts) =
     (if n = m then a else raw) @ replaceArgEscapes m a ts"

text \<open>
  \<^verbatim>\<open>QString::arg(const QString &)\<close> with the default field width. A string without a place
  marker is returned as it is (Qt prints a warning).
\<close>

definition QString_arg :: "QString \<Rightarrow> QString \<Rightarrow> QString" where
  "QString_arg s a =
     (let ts = argTokens s; es = escapes ts
      in if es = [] then s else replaceArgEscapes (min_escape es) a ts)"

text \<open>\<^verbatim>\<open>QString::number\<close> in base 10, as \<^verbatim>\<open>QString::arg(int)\<close> formats its argument.\<close>

function decimal :: "nat \<Rightarrow> QString" where
  "decimal n =
     (if n < 10 then [char_of (48 + n)] else decimal (n div 10) @ [char_of (48 + n mod 10)])"
  by pat_completeness auto
termination
  by (relation "measure id") auto

definition QString_number :: "int \<Rightarrow> QString" where
  "QString_number i = (if i < 0 then CHR ''-'' # decimal (nat (- i)) else decimal (nat i))"

definition QString_arg_int :: "QString \<Rightarrow> int \<Rightarrow> QString" where
  "QString_arg_int s i = QString_arg s (QString_number i)"

text \<open>
  \<^verbatim>\<open>QString::toHtmlEscaped\<close>: the four characters with a meaning in HTML become entities,
  every other character is kept.
\<close>

fun toHtmlEscaped :: "QString \<Rightarrow> QString" where
  "toHtmlEscaped [] = []"
| "toHtmlEscaped (c # cs) =
     (if c = CHR ''<'' then ''&lt;''
      else if c = CHR ''>'' then ''&gt;''
      else if c = CHR ''&'' then ''&amp;''
      else if c = CHR 0x22 then ''&quot;''
      else [c]) @ toHtmlEscaped cs"

subsection \<open>Search results and the collaborators of the file\<close>

type_synonym RVA = "64 word"

text \<open>
  Modelled from the spec: the struct \<^verbatim>\<open>SearchDescription\<close> is declared outside this file. The
  spec gives it as \<^verbatim>\<open>{ offset: address, size: integer, code: text, data: text }\<close>; the file
  reads these four fields. The field \<^verbatim>\<open>size\<close> is named \<open>size_sd\<close> here.
\<close>

record SearchDescription =
  offset :: RVA
  size_sd :: int
  code :: QString
  data :: QString

text \<open>A value-initialised \<^verbatim>\<open>SearchDescription\<close>, what \<^verbatim>\<open>QVariant::value\<close> gives for a variant
  that holds none.\<close>

definition SearchDescription_default :: SearchDescription where
  "SearchDescription_default = \<lparr>offset = 0, size_sd = 0, code = [], data = []\<rparr>"

text \<open>The engine facade \<^verbatim>\<open>Core()\<close>, as far as this file calls it.\<close>

record CutterCore =
  getCommentAt :: "RVA \<Rightarrow> QString"
  getDisassemblyPreview :: "RVA \<Rightarrow> int \<Rightarrow> QString list"
  getHexdumpPreview :: "RVA \<Rightarrow> int \<Rightarrow> QString"
  getAllSearch :: "QString \<Rightarrow> QString \<Rightarrow> QString \<Rightarrow> SearchDescription list"
  currentlyDebugging :: bool
  currentlyEmulating :: bool

text \<open>
  The other ambient collaborators: the formatting helpers \<^verbatim>\<open>RzAddressString\<close> and
  \<^verbatim>\<open>RzSizeString\<close>, the translation \<^verbatim>\<open>tr\<close>, and the family and point size of the font
  \<^verbatim>\<open>Config()->getBaseFont()\<close>.
\<close>

record Ambient =
  RzAddressString :: "RVA \<Rightarrow> QString"
  RzSizeString :: "int \<Rightarrow> QString"
  tr :: "QString \<Rightarrow> QString"
  fontFamily :: QString
  fontPointSize :: int

subsection \<open>Columns, roles, indexes and variants\<close>

text \<open>
  Modelled from the spec: the enum \<^verbatim>\<open>SearchModel::Columns\<close> is declared in the header of the
  file. The spec fixes the order of the columns as offset, size, code, data, comment, and
  their number as 5.
\<close>

definition OFFSET :: int where "OFFSET = 0"
definition SIZE :: int where "SIZE = 1"
definition CODE :: int where "CODE = 2"
definition DATA :: int where "DATA = 3"
definition COMMENT :: int where "COMMENT = 4"
definition COUNT :: int where "COUNT = 5"

lemmas Columns_defs = OFFSET_def SIZE_def CODE_def DATA_def COMMENT_def COUNT_def

text \<open>The roles \<^verbatim>\<open>SearchModel::data\<close> tells apart; \<open>OtherRole\<close> carries any other number.\<close>

datatype Role = DisplayRole | ToolTipRole | SearchDescriptionRole | OtherRole int

datatype QVariant =
  QVariant_Invalid
  | QVariant_String QString
  | QVariant_SearchDescription SearchDescription

text \<open>\<^verbatim>\<open>QVariant::value<SearchDescription>()\<close> and \<^verbatim>\<open>QVariant::toString()\<close>.\<close>

fun value_SearchDescription :: "QVariant \<Rightarrow> SearchDescription" where
  "value_SearchDescription (QVariant_SearchDescription d) = d"
| "value_SearchDescription _ = SearchDescription_default"

fun toString :: "QVariant \<Rightarrow> QString" where
  "toString (QVariant_String s) = s"
| "toString _ = []"

text \<open>
  A \<^verbatim>\<open>QModelIndex\<close>: a row, a column and whether it points to a model. The default
  \<^verbatim>\<open>QModelIndex()\<close> has row and column \<open>-1\<close> and no model.
\<close>

record QModelIndex =
  row :: int
  column :: int
  hasModel :: bool

definition QModelIndex_invalid :: QModelIndex where
  "QModelIndex_invalid = \<lparr>row = - 1, column = - 1, hasModel = False\<rparr>"

definition createIndex :: "int \<Rightarrow> int \<Rightarrow> QModelIndex" where
  "createIndex r c = \<lparr>row = r, column = c, hasModel = True\<rparr>"

subsection \<open>\<^verbatim>\<open>SearchModel\<close>\<close>

definition kMaxTooltipWidth :: int where "kMaxTooltipWidth = 500"
definition kMaxTooltipDisasmPreviewLines :: int where "kMaxTooltipDisasmPreviewLines = 10"
definition kMaxTooltipHexdumpBytes :: int where "kMaxTooltipHexdumpBytes = 64"

definition SearchModel_rowCount :: "SearchDescription list \<Rightarrow> QModelIndex \<Rightarrow> int" where
  "SearchModel_rowCount search parent = int (length search)"

definition SearchModel_columnCount :: "SearchDescription list \<Rightarrow> QModelIndex \<Rightarrow> int" where
  "SearchModel_columnCount search parent = COUNT"

text \<open>
  The preview of the tooltip. \<open>previewContent\<close> starts empty; the second test of the
  \<^verbatim>\<open>else if\<close> reads it before anything was assigned to it.
\<close>

definition previewContent :: "CutterCore \<Rightarrow> SearchDescription \<Rightarrow> QString" where
  "previewContent core exp =
     (let previewContent0 = ([] :: QString)
      in if code exp \<noteq> [] then
           join ''<br>'' (getDisassemblyPreview core (offset exp) kMaxTooltipDisasmPreviewLines)
         else if data exp \<noteq> [] \<or> previewContent0 = [] then
           getHexdumpPreview core (offset exp) kMaxTooltipHexdumpBytes
         else previewContent0)"

definition toolTipContent :: "CutterCore \<Rightarrow> Ambient \<Rightarrow> SearchDescription \<Rightarrow> QString" where
  "toolTipContent core amb exp =
     QString_arg_int
       (QString_arg
          (''<html><div style='' @ [CHR 0x22] @ ''font-family: %1; font-size: %2pt; white-space: ''
             @ ''nowrap;'' @ [CHR 0x22] @ ''>'')
          (fontFamily amb))
       (max 6 (fontPointSize amb - 1))
     @ QString_arg
         (tr amb (''<div style='' @ [CHR 0x22] @ ''margin-bottom: 10px;'' @ [CHR 0x22]
                    @ ''><strong>Preview</strong>:<br>%1</div>''))
         (previewContent core exp)
     @ ''</div></html>''"

text \<open>
  \<^verbatim>\<open>SearchModel::data\<close>. Only rows at or past the end are answered with a null variant before
  \<^verbatim>\<open>search->at(index.row())\<close>; with a negative row \<^verbatim>\<open>QList::at\<close> fails its assertion, the result
  \<open>None\<close> here.
\<close>

definition SearchModel_data ::
  "CutterCore \<Rightarrow> Ambient \<Rightarrow> SearchDescription list \<Rightarrow> QModelIndex \<Rightarrow> Role \<Rightarrow> QVariant option"
where
  "SearchModel_data core amb search index role =
     (if row index \<ge> int (length search) then Some QVariant_Invalid
      else if row index < 0 then None
      else
        (let exp = search ! nat (row index)
         in case role of
              DisplayRole \<Rightarrow>
                (if column index = OFFSET then
                   Some (QVariant_String (RzAddressString amb (offset exp)))
                 else if column index = SIZE then
                   Some (QVariant_String (RzSizeString amb (size_sd exp)))
                 else if column index = CODE then Some (QVariant_String (code exp))
                 else if column index = DATA then Some (QVariant_String (data exp))
                 else if column index = COMMENT then
                   Some (QVariant_String (getCommentAt core (offset exp)))
                 else Some QVariant_Invalid)
            | ToolTipRole \<Rightarrow> Some (QVariant_String (toolTipContent core amb exp))
            | SearchDescriptionRole \<Rightarrow> Some (QVariant_SearchDescription exp)
            | OtherRole r \<Rightarrow> Some QVariant_Invalid))"

text \<open>
  \<^verbatim>\<open>SearchModel::address\<close> reads \<^verbatim>\<open>search->at(index.row())\<close> with no test of the row: outside
  the result set the assertion of \<^verbatim>\<open>QList::at\<close> fails, the result \<open>None\<close> here.
\<close>

definition SearchModel_address :: "SearchDescription list \<Rightarrow> QModelIndex \<Rightarrow> RVA option" where
  "SearchModel_address search index =
     (if 0 \<le> row index \<and> row index < int (length search)
      then Some (offset (search ! nat (row index)))
      else None)"

subsection \<open>\<^verbatim>\<open>SearchSortFilterProxyModel\<close>\<close>

text \<open>
  The state of the proxy this file depends on: the active filter string and its case
  sensitivity (\<^verbatim>\<open>QSortFilterProxyModel::filterCaseSensitivity\<close>).
\<close>

record SearchSortFilterProxyModel =
  filterString :: QString
  filterCaseSensitive :: bool

fun isPrefixOf :: "QString \<Rightarrow> QString \<Rightarrow> bool" where
  "isPrefixOf [] ys = True"
| "isPrefixOf (x # xs) [] = False"
| "isPrefixOf (x # xs) (y # ys) = (x = y \<and> isPrefixOf xs ys)"

text \<open>\<open>QString_contains str s\<close>: \<open>s\<close> occurs in \<open>str\<close> as a run of consecutive characters.\<close>

fun QString_contains :: "QString \<Rightarrow> QString \<Rightarrow> bool" where
  "QString_contains [] s = (s = [])"
| "QString_contains (c # cs) s = (isPrefixOf s (c # cs) \<or> QString_contains cs s)"

definition toLower :: "char \<Rightarrow> char" where
  "toLower c = (let n = (of_char c :: nat) in if 65 \<le> n \<and> n \<le> 90 then char_of (n + 32) else c)"

text \<open>
  Modelled from the spec: \<^verbatim>\<open>qhelpers::filterStringContains\<close> is defined in
  \<^verbatim>\<open>common/Helpers\<close>, which is not among the sources. The spec: a row is accepted iff the
  code field contains the active filter string as a substring, under the case policy of the
  utility. Under a case-insensitive policy both strings are compared in lower case.
\<close>

definition foldCase :: "SearchSortFilterProxyModel \<Rightarrow> QString \<Rightarrow> QString" where
  "foldCase proxy s = (if filterCaseSensitive proxy then s else map toLower s)"

definition filterStringContains :: "QString \<Rightarrow> SearchSortFilterProxyModel \<Rightarrow> bool" where
  "filterStringContains string proxy =
     QString_contains (foldCase proxy string) (foldCase proxy (filterString proxy))"

text \<open>
  \<^verbatim>\<open>QAbstractItemModel::hasIndex\<close> and \<^verbatim>\<open>QAbstractListModel::index\<close>, over the row and column
  counts of \<^verbatim>\<open>SearchModel\<close>, and \<^verbatim>\<open>QModelIndex::data\<close>, which asks the model only when the index
  has one.
\<close>

definition hasIndex :: "SearchDescription list \<Rightarrow> int \<Rightarrow> int \<Rightarrow> QModelIndex \<Rightarrow> bool" where
  "hasIndex search r c parent =
     (if r < 0 \<or> c < 0 then False
      else r < SearchModel_rowCount search parent \<and> c < SearchModel_columnCount search parent)"

definition sourceModel_index ::
  "SearchDescription list \<Rightarrow> int \<Rightarrow> int \<Rightarrow> QModelIndex \<Rightarrow> QModelIndex"
where
  "sourceModel_index search r c parent =
     (if hasIndex search r c parent then createIndex r c else QModelIndex_invalid)"

definition QModelIndex_data ::
  "CutterCore \<Rightarrow> Ambient \<Rightarrow> SearchDescription list \<Rightarrow> QModelIndex \<Rightarrow> Role \<Rightarrow> QVariant option"
where
  "QModelIndex_data core amb search index role =
     (if hasModel index then SearchModel_data core amb search index role
      else Some QVariant_Invalid)"

definition filterAcceptsRow ::
  "CutterCore \<Rightarrow> Ambient \<Rightarrow> SearchSortFilterProxyModel \<Rightarrow> SearchDescription list
     \<Rightarrow> int \<Rightarrow> QModelIndex \<Rightarrow> bool option"
where
  "filterAcceptsRow core amb proxy search r parent =
     (let index = sourceModel_index search r 0 parent
      in case QModelIndex_data core amb search index SearchDescriptionRole of
           None \<Rightarrow> None
         | Some v \<Rightarrow> Some (filterStringContains (code (value_SearchDescription v)) proxy))"

text \<open>\<^verbatim>\<open>SearchSortFilterProxyModel::lessThan\<close>.\<close>

definition proxy_lessThan ::
  "CutterCore \<Rightarrow> Ambient \<Rightarrow> SearchDescription list \<Rightarrow> QModelIndex \<Rightarrow> QModelIndex \<Rightarrow> bool option"
where
  "proxy_lessThan core amb search left right =
     (case QModelIndex_data core amb search left SearchDescriptionRole of
        None \<Rightarrow> None
      | Some lv \<Rightarrow>
          (case QModelIndex_data core amb search right SearchDescriptionRole of
             None \<Rightarrow> None
           | Some rv \<Rightarrow>
               (let left_search = value_SearchDescription lv;
                    right_search = value_SearchDescription rv
                in Some
                     (if column left = SIZE then size_sd left_search < size_sd right_search
                      else if column left = OFFSET then offset left_search < offset right_search
                      else if column left = CODE then code left_search < code right_search
                      else if column left = DATA then data left_search < data right_search
                      else if column left = COMMENT then
                        getCommentAt core (offset left_search)
                          < getCommentAt core (offset right_search)
                      else offset left_search < offset right_search))))"

text \<open>
  The sorting itself is done by \<^verbatim>\<open>QSortFilterProxyModel\<close>: among the source rows that
  \<^verbatim>\<open>filterAcceptsRow\<close> accepts, a stable sort with \<^verbatim>\<open>lessThan\<close> as its ordering (ascending
  order), on the indexes \<^verbatim>\<open>sourceModel->index(row, sort column)\<close> of the two rows. These are
  invalid for a sort column the model does not have. The sort is modelled by a stable
  insertion sort.
\<close>

fun insert_row :: "('a \<Rightarrow> 'a \<Rightarrow> bool) \<Rightarrow> 'a \<Rightarrow> 'a list \<Rightarrow> 'a list" where
  "insert_row lt x [] = [x]"
| "insert_row lt x (y # ys) = (if lt y x then y # insert_row lt x ys else x # y # ys)"

fun stable_sort :: "('a \<Rightarrow> 'a \<Rightarrow> bool) \<Rightarrow> 'a list \<Rightarrow> 'a list" where
  "stable_sort lt [] = []"
| "stable_sort lt (x # xs) = insert_row lt x (stable_sort lt xs)"

definition row_lessThan ::
  "CutterCore \<Rightarrow> Ambient \<Rightarrow> SearchDescription list \<Rightarrow> int \<Rightarrow> nat \<Rightarrow> nat \<Rightarrow> bool"
where
  "row_lessThan core amb search col r1 r2 =
     (proxy_lessThan core amb search
        (sourceModel_index search (int r1) col QModelIndex_invalid)
        (sourceModel_index search (int r2) col QModelIndex_invalid) = Some True)"

definition accepted_rows ::
  "CutterCore \<Rightarrow> Ambient \<Rightarrow> SearchSortFilterProxyModel \<Rightarrow> SearchDescription list \<Rightarrow> nat list"
where
  "accepted_rows core amb proxy search =
     filter (\<lambda>r. filterAcceptsRow core amb proxy search (int r) QModelIndex_invalid = Some True)
       [0 ..< length search]"

definition sorted_rows ::
  "CutterCore \<Rightarrow> Ambient \<Rightarrow> SearchSortFilterProxyModel \<Rightarrow> SearchDescription list \<Rightarrow> int
     \<Rightarrow> nat list"
where
  "sorted_rows core amb proxy search col =
     stable_sort (row_lessThan core amb search col) (accepted_rows core amb proxy search)"

subsection \<open>The controls of the panel\<close>

text \<open>
  A \<^verbatim>\<open>QMap<QString, QString>\<close> keeps its entries in ascending order of their keys, one entry
  per key; its iterators run through them in that order. The initializer list is inserted
  entry by entry.
\<close>

type_synonym QMap = "(QString \<times> QString) list"

fun QMap_insert :: "QString \<Rightarrow> QString \<Rightarrow> QMap \<Rightarrow> QMap" where
  "QMap_insert k v [] = [(k, v)]"
| "QMap_insert k v ((k', v') # m) =
     (if k < k' then (k, v) # (k', v') # m
      else if k' < k then (k', v') # QMap_insert k v m
      else (k, v) # m)"

definition QMap_of :: "(QString \<times> QString) list \<Rightarrow> QMap" where
  "QMap_of init = foldl (\<lambda>m (k, v). QMap_insert k v m) [] init"

definition searchBoundaries :: QMap where
  "searchBoundaries = QMap_of
     [(''io.maps'', ''All maps''),
      (''io.map'', ''Current map''),
      (''raw'', ''Raw''),
      (''block'', ''Current block''),
      (''bin.section'', ''Current mapped section''),
      (''bin.sections'', ''All mapped sections'')]"

definition searchBoundariesDebug :: QMap where
  "searchBoundariesDebug = QMap_of
     [(''dbg.maps'', ''All memory maps''),
      (''dbg.map'', ''Memory map''),
      (''block'', ''Current block''),
      (''dbg.stack'', ''Stack''),
      (''dbg.heap'', ''Heap'')]"

text \<open>
  A \<^verbatim>\<open>QComboBox\<close>: its items (text and user data), the current index (\<open>-1\<close> when there is no
  current item) and whether its signals are blocked.
\<close>

record QComboBox =
  items :: "(QString \<times> QVariant) list"
  currentIndex :: int
  signalsBlocked :: bool

text \<open>\<^verbatim>\<open>findData\<close>: the index of the first item with the given user data, \<open>-1\<close> if there is none.\<close>

fun findData_from :: "int \<Rightarrow> (QString \<times> QVariant) list \<Rightarrow> QVariant \<Rightarrow> int" where
  "findData_from i [] d = - 1"
| "findData_from i ((t, u) # its) d = (if u = d then i else findData_from (i + 1) its d)"

definition findData :: "QComboBox \<Rightarrow> QVariant \<Rightarrow> int" where
  "findData c d = findData_from 0 (items c) d"

text \<open>\<^verbatim>\<open>setCurrentIndex\<close>: an index that names no item leaves the box without a current item.\<close>

definition setCurrentIndex :: "int \<Rightarrow> QComboBox \<Rightarrow> QComboBox" where
  "setCurrentIndex i c =
     c\<lparr>currentIndex := (if 0 \<le> i \<and> i < int (length (items c)) then i else - 1)\<rparr>"

definition blockSignals :: "bool \<Rightarrow> QComboBox \<Rightarrow> QComboBox" where
  "blockSignals b c = c\<lparr>signalsBlocked := b\<rparr>"

definition clear :: "QComboBox \<Rightarrow> QComboBox" where
  "clear c = c\<lparr>items := [], currentIndex := - 1\<rparr>"

text \<open>
  \<^verbatim>\<open>addItem\<close> appends an item. The first item inserted into an empty box becomes the current
  one; this is done by the box itself on the insertion and does not depend on its signals
  being blocked.
\<close>

definition addItem :: "QString \<Rightarrow> QVariant \<Rightarrow> QComboBox \<Rightarrow> QComboBox" where
  "addItem t u c =
     c\<lparr>items := items c @ [(t, u)],
       currentIndex := (if items c = [] \<and> currentIndex c < 0 then 0 else currentIndex c)\<rparr>"

definition currentData :: "QComboBox \<Rightarrow> QVariant" where
  "currentData c =
     (if 0 \<le> currentIndex c \<and> currentIndex c < int (length (items c))
      then snd (items c ! nat (currentIndex c))
      else QVariant_Invalid)"

text \<open>
  The signal \<^verbatim>\<open>currentIndexChanged(int)\<close> a call emits: the new index when the call changed
  the current index and the signals are not blocked.
\<close>

definition currentIndexChanged :: "QComboBox \<Rightarrow> QComboBox \<Rightarrow> int list" where
  "currentIndexChanged old new =
     (if currentIndex new \<noteq> currentIndex old \<and> \<not> signalsBlocked new then [currentIndex new]
      else [])"

record QLineEdit =
  lineText :: QString
  placeholderText :: QString

record QPushButton =
  enabled :: bool
  buttonText :: QString

text \<open>
  The panel: its controls, the result set \<open>search\<close>, and the message boxes it has shown so
  far (title and message of each \<^verbatim>\<open>QMessageBox::information\<close>, oldest first).
\<close>

record SearchWidget =
  searchInCombo :: QComboBox
  searchspaceCombo :: QComboBox
  filterLineEdit :: QLineEdit
  searchButton :: QPushButton
  search :: "SearchDescription list"
  messageBoxes :: "(QString \<times> QString) list"

definition updateSearchBoundaries :: "CutterCore \<Rightarrow> SearchWidget \<Rightarrow> SearchWidget" where
  "updateSearchBoundaries core w =
     (let boundaries =
            (if currentlyDebugging core \<and> \<not> currentlyEmulating core then searchBoundariesDebug
             else searchBoundaries);
          c0 = searchInCombo w;
          \<comment> \<open>\<^verbatim>\<open>mapIter = boundaries.cbegin()\<close>; both maps have a first entry\<close>
          c1 = (case boundaries of
                  [] \<Rightarrow> c0
                | (k, v) # _ \<Rightarrow> setCurrentIndex (findData c0 (QVariant_String k)) c0);
          c2 = blockSignals True c1;
          c3 = clear c2;
          c4 = foldl (\<lambda>c (k, v). addItem v (QVariant_String k) c) c3 boundaries;
          c5 = blockSignals False c4
      in w\<lparr>searchInCombo := c5, filterLineEdit := (filterLineEdit w)\<lparr>lineText := []\<rparr>\<rparr>)"

definition updatePlaceholderText :: "int \<Rightarrow> SearchWidget \<Rightarrow> SearchWidget" where
  "updatePlaceholderText index w =
     w\<lparr>filterLineEdit := (filterLineEdit w)\<lparr>placeholderText :=
          (if index = 1 then ''foobar''
           else if index = 2 then ''FooBar''
           else if index = 3 then ''deadbeef''
           else if index = 4 then ''pop,,pop''
           else if index = 5 then ''0xdeadbeef''
           else ''jmp rax'')\<rparr>\<rparr>"

text \<open>
  A call on \<^verbatim>\<open>searchspaceCombo\<close>, followed by the slot the constructor connects to its
  \<^verbatim>\<open>currentIndexChanged\<close>: \<^verbatim>\<open>updatePlaceholderText\<close>.
\<close>

definition on_searchspaceCombo :: "(QComboBox \<Rightarrow> QComboBox) \<Rightarrow> SearchWidget \<Rightarrow> SearchWidget" where
  "on_searchspaceCombo f w =
     (let old = searchspaceCombo w; new = f old
      in foldl (\<lambda>w' i. updatePlaceholderText i w') (w\<lparr>searchspaceCombo := new\<rparr>)
           (currentIndexChanged old new))"

text \<open>\<^verbatim>\<open>refreshSearch\<close>; resetting the model and adjusting the columns of the view leave the
  state modelled here as it is.\<close>

definition refreshSearch :: "CutterCore \<Rightarrow> SearchWidget \<Rightarrow> SearchWidget" where
  "refreshSearch core w =
     (let searchFor = lineText (filterLineEdit w);
          searchSpace = toString (currentData (searchspaceCombo w));
          searchIn = toString (currentData (searchInCombo w))
      in w\<lparr>search := getAllSearch core searchFor searchSpace searchIn\<rparr>)"

definition refreshSearchspaces :: "CutterCore \<Rightarrow> Ambient \<Rightarrow> SearchWidget \<Rightarrow> SearchWidget" where
  "refreshSearchspaces core amb w =
     (let cur_idx0 = currentIndex (searchspaceCombo w);
          cur_idx = (if cur_idx0 < 0 then 0 else cur_idx0);
          w1 = on_searchspaceCombo clear w;
          w2 = on_searchspaceCombo (addItem (tr amb ''asm code'') (QVariant_String ''/acj'')) w1;
          w3 = on_searchspaceCombo (addItem (tr amb ''string'') (QVariant_String ''/j'')) w2;
          w4 = on_searchspaceCombo
                 (addItem (tr amb ''string (case insensitive)'') (QVariant_String ''/ij'')) w3;
          w5 = on_searchspaceCombo (addItem (tr amb ''hex string'') (QVariant_String ''/xj'')) w4;
          w6 = on_searchspaceCombo (addItem (tr amb ''ROP gadgets'') (QVariant_String ''/Rj'')) w5;
          w7 = on_searchspaceCombo (addItem (tr amb ''32bit value'') (QVariant_String ''/vj'')) w6;
          w8 = (if cur_idx > 0 then on_searchspaceCombo (setCurrentIndex cur_idx) w7 else w7)
      in refreshSearch core w8)"

definition noResultsMessage :: "Ambient \<Rightarrow> QString \<Rightarrow> QString" where
  "noResultsMessage amb searchText =
     ''<b>'' @ tr amb ''No results found for:'' @ ''</b><br>'' @ toHtmlEscaped searchText"

definition checkSearchResultEmpty :: "Ambient \<Rightarrow> SearchWidget \<Rightarrow> SearchWidget" where
  "checkSearchResultEmpty amb w =
     (if search w = [] then
        w\<lparr>messageBoxes := messageBoxes w
             @ [(tr amb ''No Results Found'', noResultsMessage amb (lineText (filterLineEdit w)))]\<rparr>
      else w)"

text \<open>
  \<^verbatim>\<open>disableSearch\<close> ends with \<^verbatim>\<open>qApp->processEvents()\<close>, which runs whatever events are
  pending: their effect on the panel is the parameter \<open>pending\<close>.
\<close>

definition disableSearch ::
  "Ambient \<Rightarrow> (SearchWidget \<Rightarrow> SearchWidget) \<Rightarrow> SearchWidget \<Rightarrow> SearchWidget"
where
  "disableSearch amb pending w =
     pending (w\<lparr>searchButton := \<lparr>enabled = False, buttonText = tr amb ''Searching...''\<rparr>\<rparr>)"

definition enableSearch :: "Ambient \<Rightarrow> SearchWidget \<Rightarrow> SearchWidget" where
  "enableSearch amb w = w\<lparr>searchButton := \<lparr>enabled = True, buttonText = tr amb ''Search''\<rparr>\<rparr>"

text \<open>
  The slot the constructor connects to the Return shortcut and, with the same body, to the
  click of the search button.
\<close>

definition searchTriggered ::
  "CutterCore \<Rightarrow> Ambient \<Rightarrow> (SearchWidget \<Rightarrow> SearchWidget) \<Rightarrow> SearchWidget \<Rightarrow> SearchWidget"
where
  "searchTriggered core amb pending w =
     enableSearch amb
       (checkSearchResultEmpty amb (refreshSearch core (disableSearch amb pending w)))"

subsection \<open>Example inputs\<close>

text \<open>
  The example result set of the specification; an engine that finds it for the pattern
  \<^verbatim>\<open>mov\<close> and nothing for any other, that has a comment at the first offset, a hexdump
  and no disassembly; and a panel in the static state, with \<^verbatim>\<open>raw\<close> selected, whose filter
  input holds markup.
\<close>

definition example_results :: "SearchDescription list" where
  "example_results =
     [\<lparr>offset = 0x100, size_sd = 4, code = ''mov eax, ebx'', data = []\<rparr>,
      \<lparr>offset = 0x200, size_sd = 8, code = [], data = ''deadbeef''\<rparr>]"

definition example_core :: CutterCore where
  "example_core =
     \<lparr>getCommentAt = (\<lambda>a. if a = 0x100 then ''entry'' else []),
      getDisassemblyPreview = (\<lambda>a n. []),
      getHexdumpPreview = (\<lambda>a n. ''de ad be ef''),
      getAllSearch = (\<lambda>searchFor searchSpace searchIn.
                        if searchFor = ''mov'' then example_results else []),
      currentlyDebugging = False,
      currentlyEmulating = False\<rparr>"

definition example_ambient :: Ambient where
  "example_ambient =
     \<lparr>RzAddressString = (\<lambda>a. []), RzSizeString = (\<lambda>n. []), tr = (\<lambda>s. s),
      fontFamily = ''Mono'', fontPointSize = 10\<rparr>"

definition example_proxy :: SearchSortFilterProxyModel where
  "example_proxy = \<lparr>filterString = ''mov'', filterCaseSensitive = False\<rparr>"

definition example_widget :: SearchWidget where
  "example_widget =
     \<lparr>searchInCombo =
        \<lparr>items = [(''Current mapped section'', QVariant_String ''bin.section''),
                  (''All mapped sections'', QVariant_String ''bin.sections''),
                  (''Current block'', QVariant_String ''block''),
                  (''Current map'', QVariant_String ''io.map''),
                  (''All maps'', QVariant_String ''io.maps''),
                  (''Raw'', QVariant_String ''raw'')],
         currentIndex = 5,
         signalsBlocked = False\<rparr>,
      searchspaceCombo = \<lparr>items = [], currentIndex = - 1, signalsBlocked = False\<rparr>,
      filterLineEdit = \<lparr>lineText = ''<b>x'', placeholderText = []\<rparr>,
      searchButton = \<lparr>enabled = True, buttonText = ''Search''\<rparr>,
      search = example_results,
      messageBoxes = []\<rparr>"

section \<open>Properties\<close>

subsection \<open>Substrings and the stable sort\<close>

lemma isPrefixOf_iff: "isPrefixOf s str \<longleftrightarrow> (\<exists>post. str = s @ post)"
  by (induction s str rule: isPrefixOf.induct) auto

lemma QString_contains_iff: "QString_contains str s \<longleftrightarrow> (\<exists>pre post. str = pre @ s @ post)"
proof (induction str)
  case Nil
  show ?case by auto
next
  case (Cons c cs)
  have "(\<exists>pre post. c # cs = pre @ s @ post)
          \<longleftrightarrow> (\<exists>post. c # cs = s @ post) \<or> (\<exists>pre post. cs = pre @ s @ post)"
  proof
    assume "\<exists>pre post. c # cs = pre @ s @ post"
    then obtain pre post where e: "c # cs = pre @ s @ post" by blast
    show "(\<exists>post. c # cs = s @ post) \<or> (\<exists>pre post. cs = pre @ s @ post)"
    proof (cases pre)
      case Nil
      with e show ?thesis by auto
    next
      case (Cons p ps)
      with e have "cs = ps @ s @ post" by simp
      then show ?thesis by blast
    qed
  next
    assume "(\<exists>post. c # cs = s @ post) \<or> (\<exists>pre post. cs = pre @ s @ post)"
    then show "\<exists>pre post. c # cs = pre @ s @ post"
    proof
      assume "\<exists>post. c # cs = s @ post"
      then obtain post where "c # cs = [] @ s @ post" by auto
      then show ?thesis by blast
    next
      assume "\<exists>pre post. cs = pre @ s @ post"
      then obtain pre post where "c # cs = (c # pre) @ s @ post" by auto
      then show ?thesis by blast
    qed
  qed
  with Cons show ?case by (simp add: isPrefixOf_iff)
qed

lemma set_insert_row: "set (insert_row lt x xs) = insert x (set xs)"
  by (induction xs) auto

lemma mset_insert_row: "mset (insert_row lt x xs) = add_mset x (mset xs)"
  by (induction xs) auto

lemma mset_stable_sort: "mset (stable_sort lt xs) = mset xs"
  by (induction xs) (auto simp: mset_insert_row)

lemma set_stable_sort: "set (stable_sort lt xs) = set xs"
  by (induction xs) (auto simp: set_insert_row)

lemma sorted_insert_row:
  fixes key :: "'a \<Rightarrow> 'b::linorder"
  assumes "\<And>a. a \<in> set xs \<Longrightarrow> lt a x = (key a < key x)"
    and "sorted (map key xs)"
  shows "sorted (map key (insert_row lt x xs))"
  using assms
proof (induction xs)
  case Nil
  show ?case by simp
next
  case (Cons y ys)
  show ?case
  proof (cases "lt y x")
    case True
    with Cons.prems(1) [of y] have "key y < key x" by simp
    moreover have "sorted (map key (insert_row lt x ys))"
      using Cons by simp
    ultimately show ?thesis
      using True Cons.prems(2) by (auto simp: set_insert_row)
  next
    case False
    with Cons.prems(1) [of y] have "key x \<le> key y" by simp
    with False Cons.prems(2) show ?thesis by auto
  qed
qed

lemma sorted_stable_sort:
  fixes key :: "'a \<Rightarrow> 'b::linorder"
  assumes "\<And>a b. a \<in> set xs \<Longrightarrow> b \<in> set xs \<Longrightarrow> lt a b = (key a < key b)"
  shows "sorted (map key (stable_sort lt xs))"
  using assms
proof (induction xs)
  case Nil
  show ?case by simp
next
  case (Cons x xs)
  have "sorted (map key (stable_sort lt xs))"
    using Cons by simp
  moreover have "\<And>a. a \<in> set (stable_sort lt xs) \<Longrightarrow> lt a x = (key a < key x)"
    using Cons.prems by (simp add: set_stable_sort)
  ultimately show ?case
    by (simp add: sorted_insert_row)
qed


lemma QModelIndex_data_in_range:
  "r < length results \<Longrightarrow>
   QModelIndex_data core amb results (createIndex (int r) c) SearchDescriptionRole
     = Some (QVariant_SearchDescription (results ! r))"
  by (simp add: QModelIndex_data_def SearchModel_data_def createIndex_def)

lemma proxy_lessThan_in_range:
  assumes "a < length results" and "b < length results"
  shows "proxy_lessThan core amb results (createIndex (int a) c) (createIndex (int b) c') =
     Some (if c = SIZE then size_sd (results ! a) < size_sd (results ! b)
           else if c = OFFSET then offset (results ! a) < offset (results ! b)
           else if c = CODE then code (results ! a) < code (results ! b)
           else if c = DATA then data (results ! a) < data (results ! b)
           else if c = COMMENT then
             getCommentAt core (offset (results ! a)) < getCommentAt core (offset (results ! b))
           else offset (results ! a) < offset (results ! b))"
  using assms by (simp add: proxy_lessThan_def QModelIndex_data_in_range) (simp add: createIndex_def)

lemma sourceModel_index_in_range:
  "r < length results \<Longrightarrow> 0 \<le> c \<Longrightarrow> c < COUNT \<Longrightarrow>
   sourceModel_index results (int r) c parent = createIndex (int r) c"
  by (simp add: sourceModel_index_def hasIndex_def SearchModel_rowCount_def
      SearchModel_columnCount_def)

lemma row_lessThan_OFFSET:
  "a < length results \<Longrightarrow> b < length results \<Longrightarrow>
   row_lessThan core amb results OFFSET a b = (offset (results ! a) < offset (results ! b))"
  by (simp add: row_lessThan_def sourceModel_index_in_range proxy_lessThan_in_range Columns_defs)

lemma row_lessThan_SIZE:
  "a < length results \<Longrightarrow> b < length results \<Longrightarrow>
   row_lessThan core amb results SIZE a b = (size_sd (results ! a) < size_sd (results ! b))"
  by (simp add: row_lessThan_def sourceModel_index_in_range proxy_lessThan_in_range Columns_defs)

lemma accepted_rows_in_range: "r \<in> set (accepted_rows core amb proxy results) \<Longrightarrow> r < length results"
  by (simp add: accepted_rows_def)


lemma string_less_lexord:
  "(xs < ys) = ((xs, ys) \<in> lexord {(u, v). (of_char u :: nat) < of_char v})" for xs ys :: string
  by (simp add: list_less_def less_char_def)

lemma sorted_rows_offset:
  "sorted (map (\<lambda>r. unat (offset (results ! r))) (sorted_rows core amb proxy results OFFSET))"
  unfolding sorted_rows_def
  by (rule sorted_stable_sort)
     (simp add: row_lessThan_OFFSET accepted_rows_in_range word_less_nat_alt)

lemma sorted_rows_size:
  "sorted (map (\<lambda>r. size_sd (results ! r)) (sorted_rows core amb proxy results SIZE))"
  unfolding sorted_rows_def
  by (rule sorted_stable_sort) (simp add: row_lessThan_SIZE accepted_rows_in_range)

lemma QString_contains_empty: "QString_contains str []"
  by (cases str) simp_all

subsection \<open>The boundary maps, the selector and the tooltip\<close>

lemma searchBoundaries_entries:
  "searchBoundaries =
     [(''bin.section'', ''Current mapped section''),
      (''bin.sections'', ''All mapped sections''),
      (''block'', ''Current block''),
      (''io.map'', ''Current map''),
      (''io.maps'', ''All maps''),
      (''raw'', ''Raw'')]"
  by code_simp

lemma searchBoundariesDebug_entries:
  "searchBoundariesDebug =
     [(''block'', ''Current block''),
      (''dbg.heap'', ''Heap''),
      (''dbg.map'', ''Memory map''),
      (''dbg.maps'', ''All memory maps''),
      (''dbg.stack'', ''Stack'')]"
  by code_simp



lemma items_addItems:
  "items (foldl (\<lambda>c (k, v). addItem v (QVariant_String k) c) c m)
     = items c @ map (\<lambda>(k, v). (v, QVariant_String k)) m"
  by (induction m arbitrary: c) (simp_all add: addItem_def split: prod.split)

lemma signalsBlocked_addItems:
  "signalsBlocked (foldl (\<lambda>c (k, v). addItem v (QVariant_String k) c) c m) = signalsBlocked c"
  by (induction m arbitrary: c) (simp_all add: addItem_def split: prod.split)

lemma currentIndex_addItems:
  "currentIndex (foldl (\<lambda>c (k, v). addItem v (QVariant_String k) c) c m)
     = (if items c = [] \<and> currentIndex c < 0 \<and> m \<noteq> [] then 0 else currentIndex c)"
  by (induction m arbitrary: c) (simp_all add: addItem_def split: prod.split)


lemma searchInCombo_updateSearchBoundaries:
  "searchInCombo (updateSearchBoundaries core w) =
     \<lparr>items = map (\<lambda>(k, v). (v, QVariant_String k))
                (if currentlyDebugging core \<and> \<not> currentlyEmulating core
                 then searchBoundariesDebug else searchBoundaries),
      currentIndex = 0,
      signalsBlocked = False\<rparr>"
proof -
  define b where "b = (if currentlyDebugging core \<and> \<not> currentlyEmulating core
            then searchBoundariesDebug else searchBoundaries)"
  have ne: "b \<noteq> []"
    by (simp add: b_def searchBoundaries_entries searchBoundariesDebug_entries)
  define c1 where "c1 = (case b of [] \<Rightarrow> searchInCombo w
                | (k, v) # _ \<Rightarrow>
                    setCurrentIndex (findData (searchInCombo w) (QVariant_String k))
                      (searchInCombo w))"
  have eq: "searchInCombo (updateSearchBoundaries core w)
          = blockSignals False
              (foldl (\<lambda>c (k, v). addItem v (QVariant_String k) c)
                 (clear (blockSignals True c1)) b)"
    by (simp add: updateSearchBoundaries_def Let_def b_def c1_def)
  show ?thesis
    unfolding eq b_def [symmetric]
    by (rule QComboBox.equality)
       (simp_all add: blockSignals_def items_addItems currentIndex_addItems
          signalsBlocked_addItems clear_def ne)
qed

lemma keys_ascending:
  "sorted_wrt (<) [''bin.section'', ''bin.sections'', ''block'', ''io.map'', ''io.maps'', ''raw'']"
  "sorted_wrt (<) [''block'', ''dbg.heap'', ''dbg.map'', ''dbg.maps'', ''dbg.stack'']"
  by code_simp+

lemma previewContent_code:
  "code d \<noteq> [] \<Longrightarrow>
   previewContent core d
     = join ''<br>'' (getDisassemblyPreview core (offset d) kMaxTooltipDisasmPreviewLines)"
  by (simp add: previewContent_def)

lemma previewContent_no_code:
  "code d = [] \<Longrightarrow>
   previewContent core d = getHexdumpPreview core (offset d) kMaxTooltipHexdumpBytes"
  by (simp add: previewContent_def)

lemma toHtmlEscaped_no_markup:
  "CHR ''<'' \<notin> set (toHtmlEscaped s) \<and> CHR ''>'' \<notin> set (toHtmlEscaped s)
   \<and> CHR 0x22 \<notin> set (toHtmlEscaped s)"
  by (induction s) simp_all


subsection \<open>The claims\<close>

text \<open>
  C1. For every row of the result set and every filter string, the proxy accepts the row iff
  the code field of the row contains the filter string as a run of consecutive characters,
  both taken under the case policy of the filter; with an empty filter string every row is
  accepted.
\<close>

theorem C1_filterAcceptsRow:
  assumes "0 \<le> r" and "r < int (length results)"
  shows "filterAcceptsRow core amb proxy results r parent
           = Some (\<exists>pre post. foldCase proxy (code (results ! nat r))
                                 = pre @ foldCase proxy (filterString proxy) @ post)
         \<and> (filterString proxy = [] \<longrightarrow>
              filterAcceptsRow core amb proxy results r parent = Some True)"
proof -
  have idx: "sourceModel_index results r 0 parent = createIndex r 0"
    using assms
    by (simp add: sourceModel_index_def hasIndex_def SearchModel_rowCount_def
        SearchModel_columnCount_def COUNT_def)
  have "QModelIndex_data core amb results (createIndex r 0) SearchDescriptionRole
          = Some (QVariant_SearchDescription (results ! nat r))"
    using assms QModelIndex_data_in_range [of "nat r" results core amb 0] by simp
  then have acc: "filterAcceptsRow core amb proxy results r parent
          = Some (filterStringContains (code (results ! nat r)) proxy)"
    by (simp add: filterAcceptsRow_def idx)
  have "filterString proxy = [] \<Longrightarrow> filterStringContains (code (results ! nat r)) proxy"
    by (simp add: filterStringContains_def foldCase_def QString_contains_empty)
  then show ?thesis
    by (simp add: acc filterStringContains_def QString_contains_iff)
qed

theorem C1_filterAcceptsRow_witness:
  "(0::int) \<le> 0 \<and> (0::int) < int (length example_results)
   \<and> filterAcceptsRow example_core example_ambient example_proxy example_results 0
        QModelIndex_invalid = Some True
   \<and> (1::int) < int (length example_results)
   \<and> filterAcceptsRow example_core example_ambient example_proxy example_results 1
        QModelIndex_invalid = Some False
   \<and> filterString (example_proxy\<lparr>filterString := []\<rparr>) = []
   \<and> filterAcceptsRow example_core example_ambient (example_proxy\<lparr>filterString := []\<rparr>)
        example_results 1 QModelIndex_invalid = Some True"
proof -
  have r: "(0::int) \<le> 0" "(0::int) < int (length example_results)"
     "(0::int) \<le> 1" "(1::int) < int (length example_results)"
    by (simp_all add: example_results_def)
  have c0: "foldCase example_proxy (code (example_results ! nat 0))
              = [] @ foldCase example_proxy (filterString example_proxy) @ '' eax, ebx''"
    by (simp add: foldCase_def example_proxy_def example_results_def toLower_def)
  have c1: "foldCase example_proxy (code (example_results ! nat 1)) = []"
    "foldCase example_proxy (filterString example_proxy) = ''mov''"
    by (simp_all add: foldCase_def example_proxy_def example_results_def toLower_def)
  have "filterAcceptsRow example_core example_ambient example_proxy example_results 0
        QModelIndex_invalid = Some True"
    using C1_filterAcceptsRow [OF r(1,2), of example_core example_ambient example_proxy
      QModelIndex_invalid] c0
    by (simp del: append_Nil) blast
  moreover
  have "filterAcceptsRow example_core example_ambient example_proxy example_results 1
        QModelIndex_invalid = Some False"
    using C1_filterAcceptsRow [OF r(3,4), of example_core example_ambient example_proxy
      QModelIndex_invalid]
    unfolding c1 by simp
  moreover
  have "filterAcceptsRow example_core example_ambient (example_proxy\<lparr>filterString := []\<rparr>)
        example_results 1 QModelIndex_invalid = Some True"
    using C1_filterAcceptsRow [OF r(3,4), of example_core example_ambient
      "example_proxy\<lparr>filterString := []\<rparr>" QModelIndex_invalid, THEN conjunct2]
    by simp
  ultimately show ?thesis using r by simp
qed

text \<open>
  C2. For two rows of the result set, \<^verbatim>\<open>lessThan\<close> compares by the column of its left index:
  the sizes as numbers for the size column, the offsets as numbers for the offset column, the
  code fields and the data fields in the lexicographic order of their characters, the comments
  the engine has at the two offsets in that order for the comment column, and the offsets for
  every other column. So the rows the proxy shows, sorted by the offset column, have their
  offsets in non-decreasing order, and sorted by the size column have their sizes in
  non-decreasing order; sorting only permutes the accepted rows.
\<close>

theorem C2_lessThan_and_sorting:
  assumes "a < length results" and "b < length results"
  shows
   "proxy_lessThan core amb results (createIndex (int a) SIZE) (createIndex (int b) c')
      = Some (size_sd (results ! a) < size_sd (results ! b))
    \<and> proxy_lessThan core amb results (createIndex (int a) OFFSET) (createIndex (int b) c')
      = Some (unat (offset (results ! a)) < unat (offset (results ! b)))
    \<and> proxy_lessThan core amb results (createIndex (int a) CODE) (createIndex (int b) c')
      = Some ((code (results ! a), code (results ! b))
                \<in> lexord {(u, v). (of_char u :: nat) < of_char v})
    \<and> proxy_lessThan core amb results (createIndex (int a) DATA) (createIndex (int b) c')
      = Some ((data (results ! a), data (results ! b))
                \<in> lexord {(u, v). (of_char u :: nat) < of_char v})
    \<and> proxy_lessThan core amb results (createIndex (int a) COMMENT) (createIndex (int b) c')
      = Some ((getCommentAt core (offset (results ! a)), getCommentAt core (offset (results ! b)))
                \<in> lexord {(u, v). (of_char u :: nat) < of_char v})
    \<and> (c \<notin> {SIZE, OFFSET, CODE, DATA, COMMENT} \<longrightarrow>
         proxy_lessThan core amb results (createIndex (int a) c) (createIndex (int b) c')
           = Some (unat (offset (results ! a)) < unat (offset (results ! b))))
    \<and> sorted (map (\<lambda>r. unat (offset (results ! r))) (sorted_rows core amb proxy results OFFSET))
    \<and> sorted (map (\<lambda>r. size_sd (results ! r)) (sorted_rows core amb proxy results SIZE))
    \<and> mset (sorted_rows core amb proxy results c) = mset (accepted_rows core amb proxy results)"
proof -
  note lt = proxy_lessThan_in_range [OF assms, of core amb]
  have "mset (sorted_rows core amb proxy results c)
      = mset (accepted_rows core amb proxy results)"
    by (simp add: sorted_rows_def mset_stable_sort)
  then show ?thesis
    by (simp add: lt sorted_rows_size [unfolded SIZE_def] sorted_rows_offset [unfolded OFFSET_def]
          word_less_nat_alt string_less_lexord Columns_defs)
qed

text \<open>
  The example result set in reverse order: row 1 has the smaller offset and the smaller size,
  and sorting by offset puts it first.
\<close>

theorem C2_lessThan_and_sorting_witness:
  "(1::nat) < length (rev example_results) \<and> (0::nat) < length (rev example_results)
   \<and> proxy_lessThan example_core example_ambient (rev example_results)
        (createIndex (int 1) SIZE) (createIndex (int 0) SIZE) = Some True
   \<and> proxy_lessThan example_core example_ambient (rev example_results)
        (createIndex (int 1) OFFSET) (createIndex (int 0) OFFSET) = Some True
   \<and> proxy_lessThan example_core example_ambient (rev example_results)
        (createIndex (int 1) 7) (createIndex (int 0) 7) = Some True
   \<and> sorted (map (\<lambda>r. unat (offset (rev example_results ! r)))
        (sorted_rows example_core example_ambient (example_proxy\<lparr>filterString := []\<rparr>)
           (rev example_results) OFFSET))
   \<and> sorted (map (\<lambda>r. size_sd (rev example_results ! r))
        (sorted_rows example_core example_ambient (example_proxy\<lparr>filterString := []\<rparr>)
           (rev example_results) SIZE))
   \<and> sorted_rows example_core example_ambient (example_proxy\<lparr>filterString := []\<rparr>)
        (rev example_results) OFFSET = [1, 0]"
proof -
  have r: "(1::nat) < length (rev example_results)" "(0::nat) < length (rev example_results)"
    by (simp_all add: example_results_def)
  have c: "(7::int) \<notin> {SIZE, OFFSET, CODE, DATA, COMMENT}"
    by (simp add: Columns_defs)
  have v: "rev example_results ! 1 = \<lparr>offset = 0x100, size_sd = 4, code = ''mov eax, ebx'', data = []\<rparr>"
    "rev example_results ! Suc 0
       = \<lparr>offset = 0x100, size_sd = 4, code = ''mov eax, ebx'', data = []\<rparr>"
    "rev example_results ! 0 = \<lparr>offset = 0x200, size_sd = 8, code = [], data = ''deadbeef''\<rparr>"
    by (simp_all add: example_results_def)
  have e: "sorted_rows example_core example_ambient (example_proxy\<lparr>filterString := []\<rparr>)
        (rev example_results) OFFSET = [1, 0]"
    by code_simp
  note t = C2_lessThan_and_sorting [OF r, where core = example_core and amb = example_ambient
      and proxy = "example_proxy\<lparr>filterString := []\<rparr>" and c = 7]
  show ?thesis
    using t [where c' = SIZE] t [where c' = OFFSET] t [where c' = 7] c r e
    by (simp add: v)
qed

text \<open>
  C3. After a refresh of the boundary options the boundary selector holds exactly the entries
  of the debug set (current block, heap, memory map, all memory maps, stack) when the workspace
  is debugging and not emulating, and exactly the entries of the static set (current mapped
  section, all mapped sections, current block, current map, all maps, raw) in every other
  state; each item carries the label as its text and the key as its data, in key order.
\<close>

theorem C3_updateSearchBoundaries_items:
  "items (searchInCombo (updateSearchBoundaries core w)) =
     (if currentlyDebugging core \<and> \<not> currentlyEmulating core then
        [(''Current block'', QVariant_String ''block''),
         (''Heap'', QVariant_String ''dbg.heap''),
         (''Memory map'', QVariant_String ''dbg.map''),
         (''All memory maps'', QVariant_String ''dbg.maps''),
         (''Stack'', QVariant_String ''dbg.stack'')]
      else
        [(''Current mapped section'', QVariant_String ''bin.section''),
         (''All mapped sections'', QVariant_String ''bin.sections''),
         (''Current block'', QVariant_String ''block''),
         (''Current map'', QVariant_String ''io.map''),
         (''All maps'', QVariant_String ''io.maps''),
         (''Raw'', QVariant_String ''raw'')])"
  by (simp add: searchInCombo_updateSearchBoundaries searchBoundaries_entries
      searchBoundariesDebug_entries)

text \<open>
  C4. The tooltip shows the disassembly preview of at most
  \<open>kMaxTooltipDisasmPreviewLines\<close> lines for a row with code, and the hexdump preview of
  \<open>kMaxTooltipHexdumpBytes\<close> bytes for a row of data only or when no disassembly is
  available. For a row with code for which the engine has no disassembly,
  \<^verbatim>\<open>SearchModel::data\<close> returns a tooltip whose preview is empty, whatever the hexdump is: the
  hexdump is read only in the \<^verbatim>\<open>else\<close> branch of the test of the code field, where the test
  \<^verbatim>\<open>previewContent.isEmpty()\<close> always holds.
\<close>

theorem C4_tooltip_no_hexdump_fallback:
  assumes "0 \<le> row index" and "row index < int (length results)"
    and "code (results ! nat (row index)) \<noteq> []"
    and "getDisassemblyPreview core (offset (results ! nat (row index)))
           kMaxTooltipDisasmPreviewLines = []"
  shows "previewContent core (results ! nat (row index)) = []
         \<and> SearchModel_data core amb results index ToolTipRole
             = Some (QVariant_String
                 (QString_arg_int
                    (QString_arg
                       (''<html><div style='' @ [CHR 0x22]
                          @ ''font-family: %1; font-size: %2pt; white-space: nowrap;''
                          @ [CHR 0x22] @ ''>'')
                       (fontFamily amb))
                    (max 6 (fontPointSize amb - 1))
                  @ QString_arg
                      (tr amb (''<div style='' @ [CHR 0x22] @ ''margin-bottom: 10px;''
                                 @ [CHR 0x22] @ ''><strong>Preview</strong>:<br>%1</div>''))
                      []
                  @ ''</div></html>''))"
proof -
  have p: "previewContent core (results ! nat (row index)) = []"
    using assms(3,4) by (simp add: previewContent_code)
  have "SearchModel_data core amb results index ToolTipRole
          = Some (QVariant_String (toolTipContent core amb (results ! nat (row index))))"
    using assms(1,2) by (simp add: SearchModel_data_def)
  with p show ?thesis
    by (simp add: toolTipContent_def)
qed

text \<open>
  The first row of the example has code; the example engine has no disassembly for it, and a
  hexdump. Its tooltip, in full:
\<close>

theorem C4_tooltip_no_hexdump_fallback_witness:
  "0 \<le> row (createIndex 0 CODE) \<and> row (createIndex 0 CODE) < int (length example_results)
   \<and> code (example_results ! nat (row (createIndex 0 CODE))) = ''mov eax, ebx''
   \<and> getDisassemblyPreview example_core (offset (example_results ! nat (row (createIndex 0 CODE))))
        kMaxTooltipDisasmPreviewLines = []
   \<and> getHexdumpPreview example_core (offset (example_results ! nat (row (createIndex 0 CODE))))
        kMaxTooltipHexdumpBytes = ''de ad be ef''
   \<and> previewContent example_core (example_results ! nat (row (createIndex 0 CODE))) = []
   \<and> SearchModel_data example_core example_ambient example_results (createIndex 0 CODE)
        ToolTipRole
       = Some (QVariant_String
           (''<html><div style='' @ [CHR 0x22]
              @ ''font-family: Mono; font-size: 9pt; white-space: nowrap;'' @ [CHR 0x22]
              @ ''><div style='' @ [CHR 0x22] @ ''margin-bottom: 10px;'' @ [CHR 0x22]
              @ ''><strong>Preview</strong>:<br></div></div></html>''))"
proof -
  have h: "0 \<le> row (createIndex 0 CODE)"
    "row (createIndex 0 CODE) < int (length example_results)"
    "code (example_results ! nat (row (createIndex 0 CODE))) \<noteq> []"
    "getDisassemblyPreview example_core (offset (example_results ! nat (row (createIndex 0 CODE))))
        kMaxTooltipDisasmPreviewLines = []"
    by (simp_all add: createIndex_def example_results_def example_core_def)
  have e: "code (example_results ! nat (row (createIndex 0 CODE))) = ''mov eax, ebx''"
    "getHexdumpPreview example_core (offset (example_results ! nat (row (createIndex 0 CODE))))
        kMaxTooltipHexdumpBytes = ''de ad be ef''"
    by (simp_all add: createIndex_def example_results_def example_core_def)
  have a1: "QString_arg_int
              (QString_arg
                 (''<html><div style='' @ [CHR 0x22]
                    @ ''font-family: %1; font-size: %2pt; white-space: nowrap;''
                    @ [CHR 0x22] @ ''>'')
                 (fontFamily example_ambient))
              (max 6 (fontPointSize example_ambient - 1))
            = ''<html><div style='' @ [CHR 0x22]
                @ ''font-family: Mono; font-size: 9pt; white-space: nowrap;'' @ [CHR 0x22] @ ''>''"
    by code_simp
  have a2: "QString_arg
              (tr example_ambient (''<div style='' @ [CHR 0x22] @ ''margin-bottom: 10px;''
                 @ [CHR 0x22] @ ''><strong>Preview</strong>:<br>%1</div>''))
              []
            = ''<div style='' @ [CHR 0x22] @ ''margin-bottom: 10px;'' @ [CHR 0x22]
                @ ''><strong>Preview</strong>:<br></div>''"
    by code_simp
  show ?thesis
    using C4_tooltip_no_hexdump_fallback [OF h, of example_ambient] h e
    unfolding a1 a2 by simp
qed

text \<open>
  C5, for a search triggered by the Return shortcut or the search button. When the slot
  returns, the result set is what the engine found for the filter text, and exactly one
  message box was shown if the result set is empty, none otherwise; its message ends with
  the filter text, HTML-escaped.
\<close>

theorem C5_searchTriggered_dialog:
  "(let w1 = disableSearch amb pending w;
        w' = searchTriggered core amb pending w
    in search w' = getAllSearch core (lineText (filterLineEdit w1))
                     (toString (currentData (searchspaceCombo w1)))
                     (toString (currentData (searchInCombo w1)))
       \<and> messageBoxes w'
           = messageBoxes w1
             @ (if search w' = [] then
                  [(tr amb ''No Results Found'',
                    ''<b>'' @ tr amb ''No results found for:'' @ ''</b><br>''
                      @ toHtmlEscaped (lineText (filterLineEdit w1)))]
                else [])
       \<and> (length (messageBoxes w') = length (messageBoxes w1) + 1 \<longleftrightarrow> search w' = [])
       \<and> (messageBoxes w' = messageBoxes w1 \<longleftrightarrow> search w' \<noteq> []))"
  by (simp add: Let_def searchTriggered_def enableSearch_def checkSearchResultEmpty_def
      refreshSearch_def noResultsMessage_def)

text \<open>
  C5 as stated, for every search: a refresh of the search spaces runs a search as well, and
  shows no message box when its result set is empty. \<^verbatim>\<open>checkSearchResultEmpty\<close> is called by
  the two slots above only.
\<close>

theorem C5_refresh_without_dialog:
  "search (refreshSearchspaces example_core example_ambient example_widget) = []
   \<and> messageBoxes (refreshSearchspaces example_core example_ambient example_widget) = []"
  by code_simp

text \<open>
  C6. For every result set, the empty one included, the row count the table model reports is
  the size of the result set, and the column count it reports is 5.
\<close>

theorem C6_rowCount_columnCount:
  "SearchModel_rowCount results parent = int (length results)
   \<and> SearchModel_rowCount [] parent = 0
   \<and> SearchModel_columnCount results parent = 5"
  by (simp add: SearchModel_rowCount_def SearchModel_columnCount_def COUNT_def)

text \<open>
  C7. For every row index within the result set, the address lookup of the model returns the
  offset field of that row, unchanged.
\<close>

theorem C7_address:
  assumes "0 \<le> row index" and "row index < int (length results)"
  shows "SearchModel_address results index = Some (offset (results ! nat (row index)))"
  using assms by (simp add: SearchModel_address_def)

theorem C7_address_witness:
  "0 \<le> row (createIndex 1 0) \<and> row (createIndex 1 0) < int (length example_results)
   \<and> SearchModel_address example_results (createIndex 1 0) = Some 0x200"
  using C7_address [of "createIndex 1 0" example_results]
  by (simp add: createIndex_def example_results_def)

text \<open>
  C8. Selecting a search-space index sets the placeholder of the filter input to the example
  of that kind of search: index 3 (hex string) sets it to \<^verbatim>\<open>deadbeef\<close>, and an index outside
  1 to 5 sets it to the assembly example \<^verbatim>\<open>jmp rax\<close>. The filter text itself is left as it is.
\<close>

theorem C8_updatePlaceholderText:
  "placeholderText (filterLineEdit (updatePlaceholderText 1 w)) = ''foobar''
   \<and> placeholderText (filterLineEdit (updatePlaceholderText 2 w)) = ''FooBar''
   \<and> placeholderText (filterLineEdit (updatePlaceholderText 3 w)) = ''deadbeef''
   \<and> placeholderText (filterLineEdit (updatePlaceholderText 4 w)) = ''pop,,pop''
   \<and> placeholderText (filterLineEdit (updatePlaceholderText 5 w)) = ''0xdeadbeef''
   \<and> (i < 1 \<or> 5 < i \<longrightarrow>
        placeholderText (filterLineEdit (updatePlaceholderText i w)) = ''jmp rax'')
   \<and> lineText (filterLineEdit (updatePlaceholderText i w)) = lineText (filterLineEdit w)"
  by (auto simp: updatePlaceholderText_def)

theorem C8_updatePlaceholderText_witness:
  "placeholderText (filterLineEdit (updatePlaceholderText 3 example_widget)) = ''deadbeef''
   \<and> ((0::int) < 1 \<or> (5::int) < 0)
   \<and> placeholderText (filterLineEdit (updatePlaceholderText 0 example_widget)) = ''jmp rax''
   \<and> ((7::int) < 1 \<or> (5::int) < 7)
   \<and> placeholderText (filterLineEdit (updatePlaceholderText 7 example_widget)) = ''jmp rax''"
  using C8_updatePlaceholderText [of example_widget 0]
    C8_updatePlaceholderText [of example_widget 7]
  by simp

text \<open>
  C9. For every role and every index whose row is at or past the size of the result set, the
  data lookup of the model returns a null variant; the result set is not read.
\<close>

theorem C9_data_out_of_range:
  assumes "int (length results) \<le> row index"
  shows "SearchModel_data core amb results index role = Some QVariant_Invalid"
  using assms by (simp add: SearchModel_data_def)

theorem C9_data_out_of_range_witness:
  "int (length example_results) \<le> row (createIndex 2 0)
   \<and> SearchModel_data example_core example_ambient example_results (createIndex 2 0) ToolTipRole
       = Some QVariant_Invalid
   \<and> SearchModel_data example_core example_ambient [] (createIndex 0 0) DisplayRole
       = Some QVariant_Invalid"
  using C9_data_out_of_range [of example_results "createIndex 2 0" example_core example_ambient
      ToolTipRole]
    C9_data_out_of_range [of "[]" "createIndex 0 0" example_core example_ambient DisplayRole]
  by (simp add: createIndex_def example_results_def)

text \<open>
  C10. A refresh of the boundary options does not keep the boundary selected before: whatever
  the panel was, the selector ends with the first item of the new set current (the keys of the
  items ascend, so this is the first entry in key order: \<^verbatim>\<open>block\<close> in the debug set,
  \<^verbatim>\<open>bin.section\<close> in the static set), the same selector for any two panels, and the filter
  text is empty.
\<close>

theorem C10_updateSearchBoundaries_selection:
  "currentIndex (searchInCombo (updateSearchBoundaries core w)) = 0
   \<and> currentData (searchInCombo (updateSearchBoundaries core w))
       = QVariant_String
           (if currentlyDebugging core \<and> \<not> currentlyEmulating core then ''block''
            else ''bin.section'')
   \<and> items (searchInCombo (updateSearchBoundaries core w)) \<noteq> []
   \<and> currentData (searchInCombo (updateSearchBoundaries core w))
       = snd (hd (items (searchInCombo (updateSearchBoundaries core w))))
   \<and> sorted_wrt (<) (map (\<lambda>(t, u). toString u)
                        (items (searchInCombo (updateSearchBoundaries core w))))
   \<and> lineText (filterLineEdit (updateSearchBoundaries core w)) = []
   \<and> searchInCombo (updateSearchBoundaries core w)
       = searchInCombo (updateSearchBoundaries core w')"
proof -
  have "lineText (filterLineEdit (updateSearchBoundaries core w)) = []"
    by (simp add: updateSearchBoundaries_def Let_def)
  moreover have "sorted_wrt (<) (map (\<lambda>(t, u). toString u)
                        (items (searchInCombo (updateSearchBoundaries core w))))"
    using keys_ascending
    by (simp add: searchInCombo_updateSearchBoundaries searchBoundaries_entries
      searchBoundariesDebug_entries del: sorted_wrt.simps)
  moreover have "searchInCombo (updateSearchBoundaries core w)
       = searchInCombo (updateSearchBoundaries core w')"
    by (simp only: searchInCombo_updateSearchBoundaries)
  moreover have "currentIndex (searchInCombo (updateSearchBoundaries core w)) = 0"
    by (simp add: searchInCombo_updateSearchBoundaries)
  moreover have "currentData (searchInCombo (updateSearchBoundaries core w))
       = QVariant_String
           (if currentlyDebugging core \<and> \<not> currentlyEmulating core then ''block''
            else ''bin.section'')"
    by (simp add: searchInCombo_updateSearchBoundaries searchBoundaries_entries
      searchBoundariesDebug_entries currentData_def)
  moreover have "items (searchInCombo (updateSearchBoundaries core w)) \<noteq> []"
    by (simp add: searchInCombo_updateSearchBoundaries searchBoundaries_entries
      searchBoundariesDebug_entries)
  moreover have "currentData (searchInCombo (updateSearchBoundaries core w))
       = snd (hd (items (searchInCombo (updateSearchBoundaries core w))))"
    by (simp add: searchInCombo_updateSearchBoundaries searchBoundaries_entries
      searchBoundariesDebug_entries currentData_def)
  ultimately show ?thesis
    by (intro conjI)
qed

end
